theory Spec2Isabelle
  imports Main "HOL-Library.Multiset"
begin

section \<open>AskAI: the request handlers of main.py over one table\<close>

text \<open>
  The service in \<^verbatim>\<open>src/main.py\<close> has three handlers that touch storage:
  \<^verbatim>\<open>ask_ai\<close> (POST /ask), \<^verbatim>\<open>get_conversation_history\<close> (GET /history) and
  \<^verbatim>\<open>delete_conversation\<close> (DELETE /delete/{convo_id}). Each is embedded below as a
  function from the state of the world before the request to the handler's outcome (the
  returned JSON value, or the exception it raises) and the state of the world afterwards.
\<close>

subsection \<open>Data\<close>

text \<open>
  A row of the table \<^verbatim>\<open>conversation_history\<close> (class \<^verbatim>\<open>Conversation\<close>, lines 37-43).
  The two text columns hold \<open>None\<close> for SQL NULL, so that the \<^verbatim>\<open>nullable=False\<close>
  declarations of lines 41-42 are a check of the model and not a property of its types.
  The column \<^verbatim>\<open>id\<close> is written \<open>id_col\<close>, since \<open>id\<close> is the identity function of HOL.
\<close>

record Conversation =
  id_col :: int
  user_input :: "string option"
  ai_response :: "string option"
  created_at :: nat

text \<open>The request body of POST /ask (class \<^verbatim>\<open>Prompt\<close>, lines 60-61): one string.\<close>

record Prompt =
  prompt_user_input :: string

text \<open>A chat message as sent to the completion service: a dictionary with two keys.\<close>

record message =
  role :: string
  content :: string

text \<open>
  What the completion service answers: the object whose \<^verbatim>\<open>choices[i].message.content\<close>
  the handler reads. Each choice is kept as its message content, an optional string
  (the SDK types it \<^verbatim>\<open>Optional[str]\<close>).
\<close>

datatype ChatCompletion = ChatCompletion (choices: "string option list")

text \<open>
  Exceptions. \<open>HTTPException status_code detail\<close> is FastAPI's; \<open>Error msg\<close> stands for an
  exception of any other class whose \<^verbatim>\<open>str(e)\<close> is \<open>msg\<close>. Both are subclasses of
  Python's \<^verbatim>\<open>Exception\<close>, which is what the handlers' \<^verbatim>\<open>except Exception as e\<close> catches.
\<close>

datatype exn = HTTPException int string | Error string

text \<open>JSON values of the responses; a dictionary is a list of key-value pairs.\<close>

datatype json = JNull | JInt int | JStr string | JTimestamp nat

type_synonym json_dict = "(string \<times> json) list"

definition text_json :: "string option \<Rightarrow> json" where
  "text_json t = (case t of None \<Rightarrow> JNull | Some s \<Rightarrow> JStr s)"

subsection \<open>Sessions, the world and the environment of a request\<close>

text \<open>
  A SQLAlchemy session collects changes; they reach the table at \<^verbatim>\<open>commit\<close>.
  \<open>Insert u a\<close> is the pending object \<^verbatim>\<open>Conversation(user_input=u, ai_response=a)\<close> of
  \<^verbatim>\<open>db.add\<close>, whose id and timestamp the storage assigns; \<open>Remove c\<close> is the row marked
  by \<^verbatim>\<open>db.delete(c)\<close>.
\<close>

datatype change = Insert "string option" "string option" | Remove Conversation

record session =
  pending :: "change list"
  closed :: bool

text \<open>
  The world: the stored table in storage order, the next value of the id sequence,
  every session created so far (a session handle is its index in this list), and the
  requests sent so far to the completion service, each with its model name and messages.
\<close>

record world =
  table :: "Conversation list"
  next_id :: int
  sessions :: "session list"
  calls :: "(string \<times> message list) list"

text \<open>The storage calls of the handlers that do work on the database.\<close>

datatype db_op = OpQuery | OpAdd | OpDelete | OpCommit

text \<open>
  What a request cannot control: how the completion service answers a call (an error
  message when the call raises), which storage calls fail and with which message, the
  text of the driver's error for a NOT NULL violation, the server's clock, and the
  text \<^verbatim>\<open>str(e)\<close> of an \<^verbatim>\<open>HTTPException\<close>, which the web framework defines and this
  repository does not.
\<close>

record env =
  create :: "string \<Rightarrow> message list \<Rightarrow> string + ChatCompletion"
  fault :: "db_op \<Rightarrow> string option"
  integrity_error :: string
  now :: nat
  http_str :: "int \<Rightarrow> string \<Rightarrow> string"

subsection \<open>Computations that may raise\<close>

type_synonym 'a io = "world \<Rightarrow> (exn + 'a) \<times> world"

definition io_return :: "'a \<Rightarrow> 'a io" where
  "io_return x = (\<lambda>w. (Inr x, w))"

definition io_raise :: "exn \<Rightarrow> 'a io" where
  "io_raise e = (\<lambda>w. (Inl e, w))"

definition io_bind :: "'a io \<Rightarrow> ('a \<Rightarrow> 'b io) \<Rightarrow> 'b io" where
  "io_bind m f = (\<lambda>w. case m w of (Inl e, w') \<Rightarrow> (Inl e, w') | (Inr x, w') \<Rightarrow> f x w')"

text \<open>\<^verbatim>\<open>try: m  except Exception as e: h e\<close>\<close>

definition try_except :: "'a io \<Rightarrow> (exn \<Rightarrow> 'a io) \<Rightarrow> 'a io" where
  "try_except m h = (\<lambda>w. case m w of (Inl e, w') \<Rightarrow> h e w' | (Inr x, w') \<Rightarrow> (Inr x, w'))"

text \<open>
  \<^verbatim>\<open>try: m  finally: fin\<close>: \<open>fin\<close> runs whether \<open>m\<close> returned or raised, and the outcome of
  \<open>m\<close> stands unless \<open>fin\<close> itself raises.
\<close>

definition try_finally :: "'a io \<Rightarrow> unit io \<Rightarrow> 'a io" where
  "try_finally m fin =
     (\<lambda>w. case m w of (r, w') \<Rightarrow>
        (case fin w' of (Inl e, w'') \<Rightarrow> (Inl e, w'') | (Inr u, w'') \<Rightarrow> (r, w'')))"

text \<open>\<^verbatim>\<open>str(e)\<close>\<close>

definition str_exn :: "env \<Rightarrow> exn \<Rightarrow> string" where
  "str_exn env e = (case e of HTTPException s d \<Rightarrow> http_str env s d | Error m \<Rightarrow> m)"

text \<open>\<^verbatim>\<open>str(n)\<close> of an integer, as the f-string of line 131 formats \<^verbatim>\<open>convo_id\<close>.\<close>

fun str_nat :: "nat \<Rightarrow> string" where
  "str_nat n =
     (if n < 10 then [''0123456789'' ! n]
      else str_nat (n div 10) @ [''0123456789'' ! (n mod 10)])"

definition str_int :: "int \<Rightarrow> string" where
  "str_int i = (if i < 0 then CHR ''-'' # str_nat (nat (- i)) else str_nat (nat i))"

subsection \<open>The completion client\<close>

text \<open>
  \<^verbatim>\<open>client.chat.completions.create(model=..., messages=...)\<close>: the request is sent
  (recorded in \<open>calls\<close>) and the service answers or the call raises.
\<close>

definition chat_completions_create :: "env \<Rightarrow> string \<Rightarrow> message list \<Rightarrow> ChatCompletion io" where
  "chat_completions_create env model messages =
     (\<lambda>w. (case create env model messages of Inl m \<Rightarrow> Inl (Error m) | Inr c \<Rightarrow> Inr c,
           w\<lparr>calls := calls w @ [(model, messages)]\<rparr>))"

text \<open>\<^verbatim>\<open>response.choices[0].message.content\<close>: an empty list of choices raises IndexError.\<close>

definition first_choice_content :: "ChatCompletion \<Rightarrow> string option io" where
  "first_choice_content response =
     (case choices response of
        [] \<Rightarrow> io_raise (Error ''list index out of range'')
      | c # cs \<Rightarrow> io_return c)"

subsection \<open>The storage session\<close>

text \<open>
  \<^verbatim>\<open>SessionLocal()\<close> makes a session object; no connection is used before the first
  query or flush, so the call itself is taken not to raise. So are \<^verbatim>\<open>rollback\<close> and
  \<^verbatim>\<open>close\<close>, the two calls that only give up what the session holds.
\<close>

definition SessionLocal :: "nat io" where
  "SessionLocal =
     (\<lambda>w. (Inr (length (sessions w)),
           w\<lparr>sessions := sessions w @ [\<lparr>pending = [], closed = False\<rparr>]\<rparr>))"

definition upd_session :: "nat \<Rightarrow> (session \<Rightarrow> session) \<Rightarrow> world \<Rightarrow> world" where
  "upd_session db f w =
     (if db < length (sessions w) then w\<lparr>sessions := (sessions w)[db := f (sessions w ! db)]\<rparr>
      else w)"

definition storage_call :: "env \<Rightarrow> db_op \<Rightarrow> 'a io \<Rightarrow> 'a io" where
  "storage_call env op m =
     (case fault env op of Some msg \<Rightarrow> io_raise (Error msg) | None \<Rightarrow> m)"

text \<open>\<^verbatim>\<open>db.add(Conversation(user_input=u, ai_response=a))\<close>\<close>

definition db_add :: "env \<Rightarrow> nat \<Rightarrow> string option \<Rightarrow> string option \<Rightarrow> unit io" where
  "db_add env db u a =
     storage_call env OpAdd
       (\<lambda>w. (Inr (), upd_session db (\<lambda>s. s\<lparr>pending := pending s @ [Insert u a]\<rparr>) w))"

text \<open>\<^verbatim>\<open>db.delete(convo)\<close>\<close>

definition db_delete :: "env \<Rightarrow> nat \<Rightarrow> Conversation \<Rightarrow> unit io" where
  "db_delete env db convo =
     storage_call env OpDelete
       (\<lambda>w. (Inr (), upd_session db (\<lambda>s. s\<lparr>pending := pending s @ [Remove convo]\<rparr>) w))"

text \<open>\<^verbatim>\<open>db.query(Conversation).filter(Conversation.id == convo_id).first()\<close>\<close>

definition query_filter_first :: "env \<Rightarrow> nat \<Rightarrow> int \<Rightarrow> Conversation option io" where
  "query_filter_first env db convo_id =
     storage_call env OpQuery
       (\<lambda>w. (Inr (find (\<lambda>r. id_col r = convo_id) (table w)), w))"

text \<open>\<^verbatim>\<open>db.query(Conversation).order_by(Conversation.id.desc()).all()\<close>\<close>

definition query_order_by_id_desc_all :: "env \<Rightarrow> nat \<Rightarrow> Conversation list io" where
  "query_order_by_id_desc_all env db =
     storage_call env OpQuery
       (\<lambda>w. (Inr (sort_key (\<lambda>r. - id_col r) (table w)), w))"

text \<open>
  The flush of a commit writes the pending changes in order. An INSERT takes the next
  value of the id sequence and the server's clock (\<^verbatim>\<open>server_default="now()"\<close>), and is
  refused when a column declared \<^verbatim>\<open>nullable=False\<close> is NULL. A DELETE removes the row
  with the marked object's primary key.
\<close>

fun flush :: "env \<Rightarrow> change list \<Rightarrow> Conversation list \<times> int \<Rightarrow> exn + (Conversation list \<times> int)" where
  "flush env [] st = Inr st"
| "flush env (Insert u a # cs) (t, n) =
     (if u = None \<or> a = None then Inl (Error (integrity_error env))
      else flush env cs
             (t @ [\<lparr>id_col = n, user_input = u, ai_response = a, created_at = now env\<rparr>], n + 1))"
| "flush env (Remove c # cs) (t, n) =
     flush env cs (filter (\<lambda>r. id_col r \<noteq> id_col c) t, n)"

text \<open>
  \<^verbatim>\<open>db.commit()\<close>: the transaction is all or nothing. When the flush or the commit
  fails, the table keeps its rows and the session keeps its pending changes (until a
  rollback); when it succeeds the session has nothing pending.
\<close>

definition db_commit :: "env \<Rightarrow> nat \<Rightarrow> unit io" where
  "db_commit env db =
     storage_call env OpCommit
       (\<lambda>w. if db < length (sessions w) then
               (case flush env (pending (sessions w ! db)) (table w, next_id w) of
                  Inl e \<Rightarrow> (Inl e, w)
                | Inr (t, n) \<Rightarrow>
                    (Inr (), upd_session db (\<lambda>s. s\<lparr>pending := []\<rparr>) (w\<lparr>table := t, next_id := n\<rparr>)))
             else (Inr (), w))"

text \<open>\<^verbatim>\<open>db.rollback()\<close>\<close>

definition db_rollback :: "nat \<Rightarrow> unit io" where
  "db_rollback db = (\<lambda>w. (Inr (), upd_session db (\<lambda>s. s\<lparr>pending := []\<rparr>) w))"

text \<open>\<^verbatim>\<open>db.close()\<close>\<close>

definition db_close :: "nat \<Rightarrow> unit io" where
  "db_close db = (\<lambda>w. (Inr (), upd_session db (\<lambda>s. s\<lparr>pending := [], closed := True\<rparr>) w))"

subsection \<open>The handlers\<close>

text \<open>The body of the \<^verbatim>\<open>try\<close> of \<^verbatim>\<open>ask_ai\<close>, lines 72-89.\<close>

definition ask_ai_try :: "env \<Rightarrow> Prompt \<Rightarrow> json_dict io" where
  "ask_ai_try env prompt =
     io_bind (chat_completions_create env ''gpt-3.5-turbo''
                [\<lparr>role = ''system'', content = ''You are a helpful assistant.''\<rparr>,
                 \<lparr>role = ''user'', content = prompt_user_input prompt\<rparr>]) (\<lambda>response.
     io_bind (first_choice_content response) (\<lambda>ai_message.
     io_bind SessionLocal (\<lambda>db.
     io_bind (db_add env db (Some (prompt_user_input prompt)) ai_message) (\<lambda>u1.
     io_bind (db_commit env db) (\<lambda>u2.
     io_bind (db_close db) (\<lambda>u3.
     io_return [(''response'', text_json ai_message)]))))))"

text \<open>\<^verbatim>\<open>ask_ai\<close>, lines 70-92.\<close>

definition ask_ai :: "env \<Rightarrow> Prompt \<Rightarrow> json_dict io" where
  "ask_ai env prompt =
     try_except (ask_ai_try env prompt)
       (\<lambda>e. io_raise (HTTPException 500 (str_exn env e)))"

text \<open>The dictionary of lines 104-109.\<close>

definition convo_dict :: "Conversation \<Rightarrow> json_dict" where
  "convo_dict convo =
     [(''id'', JInt (id_col convo)),
      (''user_input'', text_json (user_input convo)),
      (''ai_response'', text_json (ai_response convo)),
      (''created_at'', JTimestamp (created_at convo))]"

text \<open>The body of the \<^verbatim>\<open>try\<close> of \<^verbatim>\<open>get_conversation_history\<close>, lines 98-111.\<close>

definition get_conversation_history_try :: "env \<Rightarrow> json_dict list io" where
  "get_conversation_history_try env =
     io_bind SessionLocal (\<lambda>db.
     io_bind (query_order_by_id_desc_all env db) (\<lambda>conversations.
     io_bind (db_close db) (\<lambda>u1.
     io_return (map convo_dict conversations))))"

text \<open>\<^verbatim>\<open>get_conversation_history\<close>, lines 96-113.\<close>

definition get_conversation_history :: "env \<Rightarrow> json_dict list io" where
  "get_conversation_history env =
     try_except (get_conversation_history_try env)
       (\<lambda>e. io_raise (HTTPException 500 (str_exn env e)))"

text \<open>The body of the \<^verbatim>\<open>try\<close> of \<^verbatim>\<open>delete_conversation\<close>, lines 120-131.\<close>

definition delete_conversation_try :: "env \<Rightarrow> nat \<Rightarrow> int \<Rightarrow> json_dict io" where
  "delete_conversation_try env db convo_id =
     io_bind (query_filter_first env db convo_id) (\<lambda>convo.
     case convo of
       None \<Rightarrow> io_raise (HTTPException 404 ''Conversation not found'')
     | Some c \<Rightarrow>
         io_bind (db_delete env db c) (\<lambda>u1.
         io_bind (db_commit env db) (\<lambda>u2.
         io_return
           [(''message'',
             JStr (''Conversation with ID '' @ str_int convo_id @ '' deleted successfully.''))])))"

text \<open>
  The \<^verbatim>\<open>try\<close> of \<^verbatim>\<open>delete_conversation\<close> with its \<^verbatim>\<open>except Exception as e\<close> clause, lines
  119-135. The clause stands around the whole body, the \<^verbatim>\<open>raise\<close> of line 125 included,
  and \<^verbatim>\<open>HTTPException\<close> is an \<^verbatim>\<open>Exception\<close>.
\<close>

definition delete_conversation_except :: "env \<Rightarrow> nat \<Rightarrow> int \<Rightarrow> json_dict io" where
  "delete_conversation_except env db convo_id =
     try_except (delete_conversation_try env db convo_id)
       (\<lambda>e. io_bind (db_rollback db) (\<lambda>u1.
            io_raise (HTTPException 500 (str_exn env e))))"

text \<open>
  \<^verbatim>\<open>delete_conversation\<close>, lines 117-138: the session is made before the \<^verbatim>\<open>try\<close>, and the
  \<^verbatim>\<open>finally\<close> clause closes it.
\<close>

definition delete_conversation :: "env \<Rightarrow> int \<Rightarrow> json_dict io" where
  "delete_conversation env convo_id =
     io_bind SessionLocal (\<lambda>db.
       try_finally (delete_conversation_except env db convo_id) (db_close db))"

subsection \<open>States, requests and environments used in the statements\<close>

text \<open>
  The world a handler leaves when it has closed its session: the table \<open>t\<close>, the
  sequence at \<open>n\<close>, and one more session than before, closed and with nothing pending.
\<close>

definition ended :: "world \<Rightarrow> Conversation list \<Rightarrow> int \<Rightarrow> world" where
  "ended w t n =
     w\<lparr>table := t, next_id := n,
       sessions := sessions w @ [\<lparr>pending = [], closed = True\<rparr>]\<rparr>"

text \<open>The model name and the messages of lines 74-78, as \<^verbatim>\<open>ask_ai\<close> sends them.\<close>

definition ask_request :: "Prompt \<Rightarrow> string \<times> message list" where
  "ask_request prompt =
     (''gpt-3.5-turbo'',
      [\<lparr>role = ''system'', content = ''You are a helpful assistant.''\<rparr>,
       \<lparr>role = ''user'', content = prompt_user_input prompt\<rparr>])"

text \<open>The world after \<^verbatim>\<open>ask_ai\<close> has sent its request and made the sessions \<open>ss\<close>.\<close>

definition asked :: "world \<Rightarrow> Prompt \<Rightarrow> session list \<Rightarrow> world" where
  "asked w prompt ss =
     w\<lparr>sessions := sessions w @ ss, calls := calls w @ [ask_request prompt]\<rparr>"

text \<open>
  The constraints the table declares: \<^verbatim>\<open>primary_key=True\<close> on the id, whose values
  come from a sequence that is ahead of every stored id, and \<^verbatim>\<open>nullable=False\<close> on the
  two text columns.
\<close>

definition pk_ok :: "world \<Rightarrow> bool" where
  "pk_ok w =
     (distinct (map id_col (table w)) \<and> list_all (\<lambda>r. id_col r < next_id w) (table w))"

definition not_null :: "Conversation \<Rightarrow> bool" where
  "not_null r = (user_input r \<noteq> None \<and> ai_response r \<noteq> None)"

text \<open>
  An environment in which nothing fails: the service answers every call with one choice,
  storage works, and \<^verbatim>\<open>str\<close> of an \<^verbatim>\<open>HTTPException\<close> is the status code, a colon and
  the detail.
\<close>

definition quiet_env :: env where
  "quiet_env =
     \<lparr>create = (\<lambda>model messages. Inr (ChatCompletion [Some ''Hello!''])),
      fault = (\<lambda>op. None),
      integrity_error = ''null value in column violates not-null constraint'',
      now = 0,
      http_str = (\<lambda>s d. str_int s @ '': '' @ d)\<rparr>"

text \<open>The service is unreachable.\<close>

definition offline_env :: env where
  "offline_env = quiet_env\<lparr>create := (\<lambda>model messages. Inl ''Connection error.'')\<rparr>"

text \<open>The service answers with one choice whose message has no content.\<close>

definition null_content_env :: env where
  "null_content_env = quiet_env\<lparr>create := (\<lambda>model messages. Inr (ChatCompletion [None]))\<rparr>"

text \<open>The service answers with one choice whose content is the empty string.\<close>

definition empty_content_env :: env where
  "empty_content_env = quiet_env\<lparr>create := (\<lambda>model messages. Inr (ChatCompletion [Some '''']))\<rparr>"

text \<open>The database is down: the query raises.\<close>

definition db_down_env :: env where
  "db_down_env =
     quiet_env\<lparr>fault := (\<lambda>op. if op = OpQuery then Some ''connection refused'' else None)\<rparr>"

text \<open>The commit raises.\<close>

definition commit_fails_env :: env where
  "commit_fails_env =
     quiet_env\<lparr>fault := (\<lambda>op. if op = OpCommit then Some ''server closed the connection'' else None)\<rparr>"

text \<open>The world at startup, and a world with two stored rows.\<close>

definition world0 :: world where
  "world0 = \<lparr>table = [], next_id = 1, sessions = [], calls = []\<rparr>"

definition row1 :: Conversation where
  "row1 = \<lparr>id_col = 1, user_input = Some ''hi'', ai_response = Some ''Hello!'', created_at = 0\<rparr>"

definition row3 :: Conversation where
  "row3 = \<lparr>id_col = 3, user_input = Some ''bye'', ai_response = Some ''Goodbye!'', created_at = 5\<rparr>"

definition world2 :: world where
  "world2 = \<lparr>table = [row1, row3], next_id = 4, sessions = [], calls = []\<rparr>"

section \<open>What the handlers compute\<close>

declare str_nat.simps [simp del]

lemmas io_defs = io_bind_def io_return_def io_raise_def try_except_def try_finally_def
  storage_call_def upd_session_def

text \<open>The row a lookup by key finds has that key.\<close>

lemma find_key: "find (\<lambda>r. f r = k) xs = Some c \<Longrightarrow> f c = k"
  by (induction xs) (auto split: if_splits)


text \<open>Each handler, path by path.\<close>

lemma ask_ai_cases:
  "ask_ai env prompt w =
     (case create env (fst (ask_request prompt)) (snd (ask_request prompt)) of
        Inl m \<Rightarrow> (Inl (HTTPException 500 m), asked w prompt [])
      | Inr c \<Rightarrow>
         (case choices c of
            [] \<Rightarrow> (Inl (HTTPException 500 ''list index out of range''), asked w prompt [])
          | a # cs \<Rightarrow>
             (case fault env OpAdd of
                Some m \<Rightarrow>
                  (Inl (HTTPException 500 m), asked w prompt [\<lparr>pending = [], closed = False\<rparr>])
              | None \<Rightarrow>
                 (case fault env OpCommit of
                    Some m \<Rightarrow>
                      (Inl (HTTPException 500 m),
                       asked w prompt
                         [\<lparr>pending = [Insert (Some (prompt_user_input prompt)) a],
                           closed = False\<rparr>])
                  | None \<Rightarrow>
                     (case a of
                        None \<Rightarrow>
                          (Inl (HTTPException 500 (integrity_error env)),
                           asked w prompt
                             [\<lparr>pending = [Insert (Some (prompt_user_input prompt)) None],
                               closed = False\<rparr>])
                      | Some t \<Rightarrow>
                         (Inr [(''response'', JStr t)],
                          (asked w prompt [\<lparr>pending = [], closed = True\<rparr>])
                            \<lparr>table := table w @
                                 [\<lparr>id_col = next_id w,
                                   user_input = Some (prompt_user_input prompt),
                                   ai_response = Some t, created_at = now env\<rparr>],
                             next_id := next_id w + 1\<rparr>))))))"
  by (simp add: ask_ai_def ask_ai_try_def SessionLocal_def chat_completions_create_def
      first_choice_content_def db_add_def db_commit_def db_close_def
      io_defs str_exn_def asked_def ask_request_def text_json_def nth_append
      split: option.splits sum.splits list.splits)

lemma get_conversation_history_cases:
  "get_conversation_history env w =
     (case fault env OpQuery of
        Some m \<Rightarrow>
          (Inl (HTTPException 500 m),
           w\<lparr>sessions := sessions w @ [\<lparr>pending = [], closed = False\<rparr>]\<rparr>)
      | None \<Rightarrow>
          (Inr (map convo_dict (sort_key (\<lambda>r. - id_col r) (table w))),
           ended w (table w) (next_id w)))"
  by (simp add: get_conversation_history_def get_conversation_history_try_def SessionLocal_def
      query_order_by_id_desc_all_def db_close_def io_defs str_exn_def ended_def nth_append
      split: option.splits)

lemma delete_conversation_cases:
  "delete_conversation env cid w =
     (case fault env OpQuery of
        Some m \<Rightarrow> (Inl (HTTPException 500 m), ended w (table w) (next_id w))
      | None \<Rightarrow>
         (case find (\<lambda>r. id_col r = cid) (table w) of
            None \<Rightarrow>
              (Inl (HTTPException 500 (http_str env 404 ''Conversation not found'')),
               ended w (table w) (next_id w))
          | Some c \<Rightarrow>
             (case fault env OpDelete of
                Some m \<Rightarrow> (Inl (HTTPException 500 m), ended w (table w) (next_id w))
              | None \<Rightarrow>
                 (case fault env OpCommit of
                    Some m \<Rightarrow> (Inl (HTTPException 500 m), ended w (table w) (next_id w))
                  | None \<Rightarrow>
                     (Inr [(''message'',
                            JStr (''Conversation with ID '' @ str_int cid @
                                  '' deleted successfully.''))],
                      ended w (filter (\<lambda>r. id_col r \<noteq> cid) (table w)) (next_id w))))))"
  by (auto simp add: delete_conversation_def delete_conversation_except_def
      delete_conversation_try_def SessionLocal_def
      query_filter_first_def db_delete_def db_commit_def db_rollback_def db_close_def
      io_defs str_exn_def ended_def nth_append dest: find_key split: option.splits)

text \<open>The table of the world each handler leaves.\<close>

lemma table_ended [simp]: "table (ended w t n) = t"
  by (simp add: ended_def)

lemma next_id_ended [simp]: "next_id (ended w t n) = n"
  by (simp add: ended_def)

lemma sessions_ended [simp]:
  "sessions (ended w t n) = sessions w @ [\<lparr>pending = [], closed = True\<rparr>]"
  by (simp add: ended_def)

lemma calls_ended [simp]: "calls (ended w t n) = calls w"
  by (simp add: ended_def)

lemma table_asked [simp]: "table (asked w prompt ss) = table w"
  by (simp add: asked_def)

lemma next_id_asked [simp]: "next_id (asked w prompt ss) = next_id w"
  by (simp add: asked_def)

lemma sessions_asked [simp]: "sessions (asked w prompt ss) = sessions w @ ss"
  by (simp add: asked_def)

lemma calls_asked [simp]: "calls (asked w prompt ss) = calls w @ [ask_request prompt]"
  by (simp add: asked_def)

lemma table_after_history: "table (snd (get_conversation_history env w)) = table w"
  by (simp add: get_conversation_history_cases split: option.splits)

lemma table_after_delete:
  "table (snd (delete_conversation env cid w)) = table w \<or>
   table (snd (delete_conversation env cid w)) = filter (\<lambda>r. id_col r \<noteq> cid) (table w)"
  by (simp add: delete_conversation_cases split: option.splits)

lemma table_after_ask:
  "table (snd (ask_ai env prompt w)) = table w \<or>
   (\<exists>t. table (snd (ask_ai env prompt w)) =
          table w @ [\<lparr>id_col = next_id w, user_input = Some (prompt_user_input prompt),
                      ai_response = Some t, created_at = now env\<rparr>])"
  by (simp add: ask_ai_cases split: option.splits sum.splits list.splits)

text \<open>The primary key stays a key: ids stay distinct and behind the sequence.\<close>

lemma pk_ok_world0: "pk_ok world0"
  by (simp add: pk_ok_def world0_def)

lemma pk_ok_ask: "pk_ok w \<Longrightarrow> pk_ok (snd (ask_ai env prompt w))"
  by (auto simp add: ask_ai_cases pk_ok_def list_all_iff
      split: option.splits sum.splits list.splits)

lemma pk_ok_history: "pk_ok w \<Longrightarrow> pk_ok (snd (get_conversation_history env w))"
  by (auto simp add: get_conversation_history_cases pk_ok_def list_all_iff asked_def
      split: option.splits)

lemma pk_ok_delete: "pk_ok w \<Longrightarrow> pk_ok (snd (delete_conversation env cid w))"
  by (auto simp add: delete_conversation_cases pk_ok_def list_all_iff distinct_map_filter
      split: option.splits)

text \<open>With distinct ids, at most one row has a given id.\<close>

lemma length_filter_key:
  "distinct (map f xs) \<Longrightarrow> length xs \<le> Suc (length (filter (\<lambda>r. f r \<noteq> k) xs))"
proof (induction xs)
  case Nil
  then show ?case by simp
next
  case (Cons x xs)
  show ?case
  proof (cases "f x = k")
    case True
    with Cons.prems have "\<forall>r \<in> set xs. f r \<noteq> k" by (force simp add: image_iff)
    then have "filter (\<lambda>r. f r \<noteq> k) xs = xs" by (simp add: filter_id_conv)
    with True show ?thesis by simp
  next
    case False
    with Cons show ?thesis by simp
  qed
qed

text \<open>Sorting by the negated id gives strictly descending ids when the ids are distinct.\<close>

lemma sort_desc_strict:
  assumes "distinct (map id_col t)"
  shows "sorted_wrt (\<lambda>a b. id_col a > id_col b) (sort_key (\<lambda>r. - id_col r) t)"
proof -
  let ?rows = "sort_key (\<lambda>r. - id_col r) t"
  have "distinct (map id_col ?rows)"
    using assms by (metis distinct_map distinct_sort set_sort)
  then have d: "distinct (map (\<lambda>r. - id_col r) ?rows)"
    by (simp add: distinct_map inj_on_def)
  have "sorted (map (\<lambda>r. - id_col r) ?rows)"
    by (rule sorted_sort_key)
  with d have "sorted_wrt (<) (map (\<lambda>r. - id_col r) ?rows)"
    by (simp add: strict_sorted_iff)
  then show ?thesis
    by (simp add: sorted_wrt_map)
qed

section \<open>The claims\<close>

subsection \<open>Delete of an id that is not stored\<close>

text \<open>
  C1. The claim: a delete request whose id matches no stored Exchange is answered with
  a not-found error, HTTP 404; in particular the second of two deletes of one id.
  The handler raises \<open>HTTPException 404\<close> inside its own \<^verbatim>\<open>try\<close>, whose
  \<^verbatim>\<open>except Exception\<close> clause catches it and raises \<open>HTTPException 500\<close> in its place. So
  no delete request at all is answered with 404: with no row of id 7 the status is 500,
  and after a first delete of id 1 has succeeded, the second is answered with 500.
\<close>

theorem delete_absent_signals_500:
  "fst (delete_conversation env cid w) \<noteq> Inl (HTTPException 404 d) \<and>
   fst (delete_conversation quiet_env 7 world0) =
     Inl (HTTPException 500 ''404: Conversation not found'') \<and>
   fst (delete_conversation quiet_env 1 world2) =
     Inr [(''message'', JStr ''Conversation with ID 1 deleted successfully.'')] \<and>
   fst (delete_conversation quiet_env 1 (snd (delete_conversation quiet_env 1 world2))) =
     Inl (HTTPException 500 ''404: Conversation not found'')"
proof -
  have never: "fst (delete_conversation env cid w) \<noteq> Inl (HTTPException 404 d)"
    by (simp add: delete_conversation_cases split: option.splits)
  have absent: "fst (delete_conversation quiet_env 7 world0) =
      Inl (HTTPException 500 ''404: Conversation not found'')"
    by (simp add: delete_conversation_cases quiet_env_def world0_def str_int_def
        str_nat.simps)
  have first: "delete_conversation quiet_env 1 world2 =
      (Inr [(''message'', JStr ''Conversation with ID 1 deleted successfully.'')],
       ended world2 [row3] 4)"
    by (simp add: delete_conversation_cases quiet_env_def world2_def row1_def row3_def
        str_int_def str_nat.simps)
  have second: "fst (delete_conversation quiet_env 1 (ended world2 [row3] 4)) =
      Inl (HTTPException 500 ''404: Conversation not found'')"
    by (simp add: delete_conversation_cases quiet_env_def row3_def str_int_def
        str_nat.simps)
  from never absent first second show ?thesis by simp
qed

subsection \<open>The request sent to the completion service\<close>

text \<open>
  C9, as amended. Every ask request sends exactly one request to the completion
  service, whether the handler then succeeds or fails: the model is the constant
  \<^verbatim>\<open>gpt-3.5-turbo\<close> and the messages are exactly two, a system message whose content is
  the constant \<^verbatim>\<open>You are a helpful assistant.\<close> (with its final full stop) and a user
  message whose content is the request's \<^verbatim>\<open>user_input\<close>, unchanged.
\<close>

theorem ask_sends_fixed_preamble_and_input:
  "calls (snd (ask_ai env prompt w)) =
     calls w @
       [(''gpt-3.5-turbo'',
         [\<lparr>role = ''system'', content = ''You are a helpful assistant.''\<rparr>,
          \<lparr>role = ''user'', content = prompt_user_input prompt\<rparr>])]"
  by (simp add: ask_ai_cases ask_request_def split: option.splits sum.splits list.splits)

text \<open>
  C9 as stated gives the content of the system message as \<^verbatim>\<open>You are a helpful assistant\<close>.
  For the request \<^verbatim>\<open>{"user_input": "hi"}\<close> at startup, the one request sent has a system
  message with another content: the text of line 76 ends with a full stop.
\<close>

theorem system_preamble_counterexample:
  "map (\<lambda>c. map role (snd c)) (calls (snd (ask_ai quiet_env \<lparr>prompt_user_input = ''hi''\<rparr> world0))) =
     [[''system'', ''user'']] \<and>
   map (\<lambda>c. content (hd (snd c))) (calls (snd (ask_ai quiet_env \<lparr>prompt_user_input = ''hi''\<rparr> world0))) \<noteq>
     [''You are a helpful assistant'']"
  by (simp add: ask_ai_cases ask_request_def quiet_env_def world0_def)

subsection \<open>Release of the session\<close>

text \<open>
  C8. The claim: every handler, whether it succeeds or fails, has closed the session it
  opened when it returns or raises. \<^verbatim>\<open>delete_conversation\<close> closes its session in a
  \<^verbatim>\<open>finally\<close> clause, on every path. \<^verbatim>\<open>ask_ai\<close> and \<^verbatim>\<open>get_conversation_history\<close> call
  \<^verbatim>\<open>db.close()\<close> as the last statement of the path without failure only: when the
  completion has no content the INSERT is refused, \<^verbatim>\<open>ask_ai\<close> raises its 500 and the
  session it opened is still open, with the refused row pending; when the query fails,
  the session of \<^verbatim>\<open>get_conversation_history\<close> is still open.
\<close>

theorem ask_and_history_leave_session_open:
  "sessions (snd (delete_conversation env cid w)) =
     sessions w @ [\<lparr>pending = [], closed = True\<rparr>] \<and>
   ask_ai null_content_env \<lparr>prompt_user_input = ''hello''\<rparr> world0 =
     (Inl (HTTPException 500 ''null value in column violates not-null constraint''),
      world0\<lparr>sessions := [\<lparr>pending = [Insert (Some ''hello'') None], closed = False\<rparr>],
             calls := [ask_request \<lparr>prompt_user_input = ''hello''\<rparr>]\<rparr>) \<and>
   get_conversation_history db_down_env world2 =
     (Inl (HTTPException 500 ''connection refused''),
      world2\<lparr>sessions := [\<lparr>pending = [], closed = False\<rparr>]\<rparr>)"
proof -
  have del: "sessions (snd (delete_conversation env cid w)) =
      sessions w @ [\<lparr>pending = [], closed = True\<rparr>]"
    by (simp add: delete_conversation_cases split: option.splits)
  have ask: "ask_ai null_content_env \<lparr>prompt_user_input = ''hello''\<rparr> world0 =
     (Inl (HTTPException 500 ''null value in column violates not-null constraint''),
      world0\<lparr>sessions := [\<lparr>pending = [Insert (Some ''hello'') None], closed = False\<rparr>],
             calls := [ask_request \<lparr>prompt_user_input = ''hello''\<rparr>]\<rparr>)"
    by (simp add: ask_ai_cases null_content_env_def quiet_env_def world0_def asked_def)
  have hist: "get_conversation_history db_down_env world2 =
     (Inl (HTTPException 500 ''connection refused''),
      world2\<lparr>sessions := [\<lparr>pending = [], closed = False\<rparr>]\<rparr>)"
    by (simp add: get_conversation_history_cases db_down_env_def quiet_env_def world2_def)
  from del ask hist show ?thesis by simp
qed

subsection \<open>The rows a delete leaves alone\<close>

text \<open>
  C10. A delete request for the id \<open>cid\<close>, whatever its outcome, leaves every stored row
  whose id is not \<open>cid\<close> as it was and where it was: the rows of other ids are the same
  list before and after. No row is added, and where ids are distinct (the primary key)
  at most one row is gone.
\<close>

theorem delete_leaves_other_rows:
  "filter (\<lambda>r. id_col r \<noteq> cid) (table (snd (delete_conversation env cid w))) =
     filter (\<lambda>r. id_col r \<noteq> cid) (table w) \<and>
   set (table (snd (delete_conversation env cid w))) \<subseteq> set (table w) \<and>
   (distinct (map id_col (table w)) \<longrightarrow>
      length (table w) \<le> Suc (length (table (snd (delete_conversation env cid w)))))"
proof -
  let ?t' = "table (snd (delete_conversation env cid w))"
  have cases: "?t' = table w \<or> ?t' = filter (\<lambda>r. id_col r \<noteq> cid) (table w)"
    by (rule table_after_delete)
  then have frame: "filter (\<lambda>r. id_col r \<noteq> cid) ?t' = filter (\<lambda>r. id_col r \<noteq> cid) (table w)"
    by auto
  from cases have sub: "set ?t' \<subseteq> set (table w)"
    by auto
  have len: "length (table w) \<le> Suc (length ?t')" if "distinct (map id_col (table w))"
    using cases length_filter_key [OF that, of cid] by auto
  from frame sub len show ?thesis by blast
qed

text \<open>
  In the world with the rows of ids 1 and 3, whose ids are distinct, the delete of id 1
  leaves exactly the row of id 3.
\<close>

theorem delete_leaves_other_rows_witness:
  "distinct (map id_col (table world2)) \<and>
   table (snd (delete_conversation quiet_env 1 world2)) = [row3] \<and>
   filter (\<lambda>r. id_col r \<noteq> 1) (table (snd (delete_conversation quiet_env 1 world2))) =
     filter (\<lambda>r. id_col r \<noteq> 1) (table world2) \<and>
   length (table world2) \<le> Suc (length (table (snd (delete_conversation quiet_env 1 world2))))"
proof -
  have d: "distinct (map id_col (table world2))"
    by (simp add: world2_def row1_def row3_def)
  have t: "table (snd (delete_conversation quiet_env 1 world2)) = [row3]"
    by (simp add: delete_conversation_cases quiet_env_def world2_def row1_def row3_def)
  from d t delete_leaves_other_rows [of 1 quiet_env world2] show ?thesis
    by blast
qed

subsection \<open>History\<close>

text \<open>
  C3. In every state of the table (ids distinct, as the primary key makes them), when
  the storage answers the query, \<^verbatim>\<open>get_conversation_history\<close> returns, for each stored
  row and for nothing else, the dictionary of its id, its user_input, its ai_response
  and its created_at under these four keys: the rows returned are the stored rows, each
  as often as it is stored, with no limit on their number, in strictly descending order
  of id. The table is as it was.
\<close>

theorem history_returns_all_rows_descending:
  assumes "distinct (map id_col (table w))" and "fault env OpQuery = None"
  shows "\<exists>rows.
           fst (get_conversation_history env w) =
             Inr (map (\<lambda>r. [(''id'', JInt (id_col r)),
                             (''user_input'',
                              case user_input r of None \<Rightarrow> JNull | Some s \<Rightarrow> JStr s),
                             (''ai_response'',
                              case ai_response r of None \<Rightarrow> JNull | Some s \<Rightarrow> JStr s),
                             (''created_at'', JTimestamp (created_at r))]) rows) \<and>
           mset rows = mset (table w) \<and>
           length rows = length (table w) \<and>
           sorted_wrt (\<lambda>a b. id_col a > id_col b) rows \<and>
           table (snd (get_conversation_history env w)) = table w"
proof -
  let ?rows = "sort_key (\<lambda>r. - id_col r) (table w)"
  let ?entry = "\<lambda>r. [(''id'', JInt (id_col r)),
      (''user_input'', case user_input r of None \<Rightarrow> JNull | Some s \<Rightarrow> JStr s),
      (''ai_response'', case ai_response r of None \<Rightarrow> JNull | Some s \<Rightarrow> JStr s),
      (''created_at'', JTimestamp (created_at r))]"
  have entry: "convo_dict = ?entry"
    by (rule ext) (simp add: convo_dict_def text_json_def)
  have "fst (get_conversation_history env w) = Inr (map convo_dict ?rows)"
    using assms(2) by (simp add: get_conversation_history_cases)
  then have res: "fst (get_conversation_history env w) = Inr (map ?entry ?rows)"
    by (simp only: entry)
  have all: "mset ?rows = mset (table w)"
    by simp
  have len: "length ?rows = length (table w)"
    by simp
  have desc: "sorted_wrt (\<lambda>a b. id_col a > id_col b) ?rows"
    using assms(1) by (rule sort_desc_strict)
  have same: "table (snd (get_conversation_history env w)) = table w"
    by (rule table_after_history)
  from res all len desc same show ?thesis by blast
qed

text \<open>
  With the rows of ids 1 and 3 stored in this order, the history is the entry of id 3
  with its texts and timestamp, and then the entry of id 1 with its own.
\<close>

theorem history_returns_all_rows_descending_witness:
  "distinct (map id_col (table world2)) \<and> fault quiet_env OpQuery = None \<and>
   fst (get_conversation_history quiet_env world2) =
     Inr [[(''id'', JInt 3), (''user_input'', JStr ''bye''),
           (''ai_response'', JStr ''Goodbye!''), (''created_at'', JTimestamp 5)],
          [(''id'', JInt 1), (''user_input'', JStr ''hi''),
           (''ai_response'', JStr ''Hello!''), (''created_at'', JTimestamp 0)]] \<and>
   (\<exists>rows.
      fst (get_conversation_history quiet_env world2) =
        Inr (map (\<lambda>r. [(''id'', JInt (id_col r)),
                        (''user_input'',
                         case user_input r of None \<Rightarrow> JNull | Some s \<Rightarrow> JStr s),
                        (''ai_response'',
                         case ai_response r of None \<Rightarrow> JNull | Some s \<Rightarrow> JStr s),
                        (''created_at'', JTimestamp (created_at r))]) rows) \<and>
      mset rows = mset (table world2) \<and>
      length rows = length (table world2) \<and>
      sorted_wrt (\<lambda>a b. id_col a > id_col b) rows \<and>
      table (snd (get_conversation_history quiet_env world2)) = table world2)"
proof -
  have d: "distinct (map id_col (table world2))"
    by (simp add: world2_def row1_def row3_def)
  have f: "fault quiet_env OpQuery = None"
    by (simp add: quiet_env_def)
  have v: "fst (get_conversation_history quiet_env world2) =
     Inr [[(''id'', JInt 3), (''user_input'', JStr ''bye''),
           (''ai_response'', JStr ''Goodbye!''), (''created_at'', JTimestamp 5)],
          [(''id'', JInt 1), (''user_input'', JStr ''hi''),
           (''ai_response'', JStr ''Hello!''), (''created_at'', JTimestamp 0)]]"
    by (simp add: get_conversation_history_cases quiet_env_def world2_def row1_def row3_def
        convo_dict_def text_json_def)
  from d f v history_returns_all_rows_descending [OF d f] show ?thesis
    by blast
qed

subsection \<open>Delete of a stored id\<close>



subsection \<open>A successful ask\<close>

text \<open>
  C2. Whenever \<^verbatim>\<open>ask_ai\<close> returns (status 200), the completion service has answered the
  request with a first choice of some text \<open>t\<close>; the response is \<open>t\<close>; the table is the
  table of before with one new row at its end, whose \<^verbatim>\<open>user_input\<close> is the request's,
  whose \<^verbatim>\<open>ai_response\<close> is \<open>t\<close>, and whose id and timestamp come from the storage (the
  id is new when ids were behind the sequence); and every history taken in the state the
  ask leaves has the entry of this row.
\<close>

theorem ask_success_persists_exchange:
  assumes "ask_ai env prompt w = (Inr body, w')"
  shows "\<exists>c t cs.
           create env ''gpt-3.5-turbo'' (snd (ask_request prompt)) = Inr c \<and>
           choices c = Some t # cs \<and>
           body = [(''response'', JStr t)] \<and>
           table w' =
             table w @ [\<lparr>id_col = next_id w, user_input = Some (prompt_user_input prompt),
                         ai_response = Some t, created_at = now env\<rparr>] \<and>
           (pk_ok w \<longrightarrow> next_id w \<notin> id_col ` set (table w)) \<and>
           (\<forall>env' hs w''.
              get_conversation_history env' w' = (Inr hs, w'') \<longrightarrow>
              convo_dict \<lparr>id_col = next_id w, user_input = Some (prompt_user_input prompt),
                          ai_response = Some t, created_at = now env\<rparr> \<in> set hs)"
proof -
  have "\<exists>c t cs.
      create env ''gpt-3.5-turbo'' (snd (ask_request prompt)) = Inr c \<and>
      choices c = Some t # cs \<and>
      body = [(''response'', JStr t)] \<and>
      table w' =
        table w @ [\<lparr>id_col = next_id w, user_input = Some (prompt_user_input prompt),
                    ai_response = Some t, created_at = now env\<rparr>]"
    using assms
    by (auto simp add: ask_ai_cases ask_request_def
        split: sum.splits list.splits option.splits)
  then obtain c t cs where
    c: "create env ''gpt-3.5-turbo'' (snd (ask_request prompt)) = Inr c" and
    ch: "choices c = Some t # cs" and
    b: "body = [(''response'', JStr t)]" and
    t: "table w' =
        table w @ [\<lparr>id_col = next_id w, user_input = Some (prompt_user_input prompt),
                    ai_response = Some t, created_at = now env\<rparr>]"
    by blast
  let ?row = "\<lparr>id_col = next_id w, user_input = Some (prompt_user_input prompt),
               ai_response = Some t, created_at = now env\<rparr>"
  have new: "pk_ok w \<longrightarrow> next_id w \<notin> id_col ` set (table w)"
    by (auto simp add: pk_ok_def list_all_iff)
  have hist: "convo_dict ?row \<in> set hs"
    if h: "get_conversation_history env' w' = (Inr hs, w'')" for env' hs w''
  proof -
    from h have "hs = map convo_dict (sort_key (\<lambda>r. - id_col r) (table w'))"
      by (simp add: get_conversation_history_cases split: option.splits)
    with t show ?thesis by simp
  qed
  from c ch b t new hist show ?thesis by blast
qed

text \<open>
  The request \<^verbatim>\<open>{"user_input": "hi"}\<close> at startup, answered with \<^verbatim>\<open>Hello!\<close>: the response
  is \<^verbatim>\<open>Hello!\<close>, the table has the one row of id 1, and the history has its entry.
\<close>

theorem ask_success_persists_exchange_witness:
  "fst (ask_ai quiet_env \<lparr>prompt_user_input = ''hi''\<rparr> world0) =
     Inr [(''response'', JStr ''Hello!'')] \<and>
   table (snd (ask_ai quiet_env \<lparr>prompt_user_input = ''hi''\<rparr> world0)) = [row1] \<and>
   fst (get_conversation_history quiet_env
          (snd (ask_ai quiet_env \<lparr>prompt_user_input = ''hi''\<rparr> world0))) =
     Inr [convo_dict row1] \<and>
   (\<exists>c t cs.
      create quiet_env ''gpt-3.5-turbo'' (snd (ask_request \<lparr>prompt_user_input = ''hi''\<rparr>)) =
        Inr c \<and>
      choices c = Some t # cs \<and>
      table (snd (ask_ai quiet_env \<lparr>prompt_user_input = ''hi''\<rparr> world0)) =
        table world0 @ [\<lparr>id_col = next_id world0, user_input = Some ''hi'',
                          ai_response = Some t, created_at = now quiet_env\<rparr>])"
proof -
  let ?p = "\<lparr>prompt_user_input = ''hi''\<rparr>"
  have r: "fst (ask_ai quiet_env ?p world0) = Inr [(''response'', JStr ''Hello!'')]"
    by (simp add: ask_ai_cases quiet_env_def)
  have t: "table (snd (ask_ai quiet_env ?p world0)) = [row1]"
    by (simp add: ask_ai_cases quiet_env_def world0_def row1_def)
  have f: "fault quiet_env OpQuery = None"
    by (simp add: quiet_env_def)
  have h: "fst (get_conversation_history quiet_env (snd (ask_ai quiet_env ?p world0))) =
      Inr [convo_dict row1]"
    by (simp add: get_conversation_history_cases f t)
  from r have run: "ask_ai quiet_env ?p world0 =
      (Inr [(''response'', JStr ''Hello!'')], snd (ask_ai quiet_env ?p world0))"
    by (simp add: prod_eq_iff)
  from ask_success_persists_exchange [OF run] r t h show ?thesis
    by auto
qed

subsection \<open>A failing delete\<close>

text \<open>What the \<^verbatim>\<open>try\<close> of \<^verbatim>\<open>delete_conversation\<close> with its \<^verbatim>\<open>except\<close> clause leaves when it raises.\<close>

lemma delete_conversation_except_raises:
  assumes "db < length (sessions w0)"
    and "delete_conversation_except env db cid w0 = (Inl e, w1)"
  shows "table w1 = table w0 \<and> next_id w1 = next_id w0 \<and>
         pending (sessions w1 ! db) = [] \<and>
         closed (sessions w1 ! db) = closed (sessions w0 ! db)"
  using assms
  by (auto simp add: delete_conversation_except_def delete_conversation_try_def
      query_filter_first_def db_delete_def db_commit_def db_rollback_def io_defs
      split: option.splits sum.splits prod.splits if_splits)

text \<open>
  C5. When the lookup of \<^verbatim>\<open>delete_conversation\<close> fails with the message \<open>m\<close>, or the row is
  found and its removal fails with \<open>m\<close> (at \<^verbatim>\<open>db.delete\<close> or at \<^verbatim>\<open>db.commit\<close>), the handler
  raises \<open>HTTPException 500 m\<close>. Whenever the handler raises, the table and the id
  sequence are as they were before the request and its session is closed with nothing
  pending; and already when the \<^verbatim>\<open>except\<close> clause raises, before the \<^verbatim>\<open>finally\<close> clause
  runs, the table is as before and the session, still open, has nothing pending.
\<close>

theorem delete_failure_reverts_change:
  "(fault env OpQuery = Some m \<longrightarrow>
      fst (delete_conversation env cid w) = Inl (HTTPException 500 m)) \<and>
   (fault env OpQuery = None \<and> cid \<in> id_col ` set (table w) \<and>
    fault env OpDelete = Some m \<longrightarrow>
      fst (delete_conversation env cid w) = Inl (HTTPException 500 m)) \<and>
   (fault env OpQuery = None \<and> cid \<in> id_col ` set (table w) \<and>
    fault env OpDelete = None \<and> fault env OpCommit = Some m \<longrightarrow>
      fst (delete_conversation env cid w) = Inl (HTTPException 500 m)) \<and>
   (\<forall>e w'. delete_conversation env cid w = (Inl e, w') \<longrightarrow>
      table w' = table w \<and> next_id w' = next_id w \<and>
      sessions w' = sessions w @ [\<lparr>pending = [], closed = True\<rparr>]) \<and>
   (\<forall>db w0 e w1.
      db < length (sessions w0) \<and> delete_conversation_except env db cid w0 = (Inl e, w1) \<longrightarrow>
      table w1 = table w0 \<and> pending (sessions w1 ! db) = [] \<and>
      closed (sessions w1 ! db) = closed (sessions w0 ! db))"
proof -
  have found: "\<exists>c. find (\<lambda>r. id_col r = cid) (table w) = Some c"
    if "cid \<in> id_col ` set (table w)"
    using that by (cases "find (\<lambda>r. id_col r = cid) (table w)") (auto simp add: find_None_iff)
  have q: "fault env OpQuery = Some m \<longrightarrow>
      fst (delete_conversation env cid w) = Inl (HTTPException 500 m)"
    by (simp add: delete_conversation_cases)
  have d: "fault env OpQuery = None \<and> cid \<in> id_col ` set (table w) \<and>
      fault env OpDelete = Some m \<longrightarrow>
        fst (delete_conversation env cid w) = Inl (HTTPException 500 m)"
    using found by (auto simp add: delete_conversation_cases)
  have c: "fault env OpQuery = None \<and> cid \<in> id_col ` set (table w) \<and>
      fault env OpDelete = None \<and> fault env OpCommit = Some m \<longrightarrow>
        fst (delete_conversation env cid w) = Inl (HTTPException 500 m)"
    using found by (auto simp add: delete_conversation_cases)
  have a: "\<forall>e w'. delete_conversation env cid w = (Inl e, w') \<longrightarrow>
      table w' = table w \<and> next_id w' = next_id w \<and>
      sessions w' = sessions w @ [\<lparr>pending = [], closed = True\<rparr>]"
    by (auto simp add: delete_conversation_cases split: option.splits)
  have x: "\<forall>db w0 e w1.
      db < length (sessions w0) \<and> delete_conversation_except env db cid w0 = (Inl e, w1) \<longrightarrow>
      table w1 = table w0 \<and> pending (sessions w1 ! db) = [] \<and>
      closed (sessions w1 ! db) = closed (sessions w0 ! db)"
    using delete_conversation_except_raises by blast
  show ?thesis by (intro conjI q d c a x)
qed

text \<open>
  The commit fails while the row of id 1 is being deleted: the handler raises 500 with
  the message of the failure, and both rows are still stored. Inside the handler, with
  the session at index 0 open, the \<^verbatim>\<open>except\<close> clause has emptied what the session held
  when it raises.
\<close>

theorem delete_failure_reverts_change_witness:
  "fault commit_fails_env OpQuery = None \<and> 1 \<in> id_col ` set (table world2) \<and>
   fault commit_fails_env OpDelete = None \<and>
   fault commit_fails_env OpCommit = Some ''server closed the connection'' \<and>
   fst (delete_conversation commit_fails_env 1 world2) =
     Inl (HTTPException 500 ''server closed the connection'') \<and>
   table (snd (delete_conversation commit_fails_env 1 world2)) = [row1, row3] \<and>
   sessions (snd (delete_conversation commit_fails_env 1 world2)) =
     [\<lparr>pending = [], closed = True\<rparr>] \<and>
   delete_conversation_except commit_fails_env 0 1
       (world2\<lparr>sessions := [\<lparr>pending = [], closed = False\<rparr>]\<rparr>) =
     (Inl (HTTPException 500 ''server closed the connection''),
      world2\<lparr>sessions := [\<lparr>pending = [], closed = False\<rparr>]\<rparr>)"
proof -
  have f: "fault commit_fails_env OpQuery = None" "fault commit_fails_env OpDelete = None"
    "fault commit_fails_env OpCommit = Some ''server closed the connection''"
    by (simp_all add: commit_fails_env_def quiet_env_def)
  have m: "1 \<in> id_col ` set (table world2)"
    by (simp add: world2_def row1_def)
  have t: "table world2 = [row1, row3]" "sessions world2 = []"
    by (simp_all add: world2_def)
  have x: "delete_conversation_except commit_fails_env 0 1
       (world2\<lparr>sessions := [\<lparr>pending = [], closed = False\<rparr>]\<rparr>) =
     (Inl (HTTPException 500 ''server closed the connection''),
      world2\<lparr>sessions := [\<lparr>pending = [], closed = False\<rparr>]\<rparr>)"
    by (simp add: delete_conversation_except_def delete_conversation_try_def
        query_filter_first_def db_delete_def db_commit_def db_rollback_def io_defs f
        str_exn_def world2_def row1_def)
  let ?res = "delete_conversation commit_fails_env 1 world2"
  from delete_failure_reverts_change
    [where env = commit_fails_env and cid = 1 and w = world2
      and m = "''server closed the connection''"] f m
  have r: "fst ?res = Inl (HTTPException 500 ''server closed the connection'')" and
    all: "\<forall>e w'. ?res = (Inl e, w') \<longrightarrow>
      table w' = table world2 \<and> next_id w' = next_id world2 \<and>
      sessions w' = sessions world2 @ [\<lparr>pending = [], closed = True\<rparr>]"
    by blast+
  from r have "?res = (Inl (HTTPException 500 ''server closed the connection''), snd ?res)"
    by (simp add: prod_eq_iff)
  with all have "table (snd ?res) = table world2 \<and>
      sessions (snd ?res) = sessions world2 @ [\<lparr>pending = [], closed = True\<rparr>]"
    by blast
  with f m r t x show ?thesis by simp
qed

subsection \<open>The stored rows\<close>

text \<open>
  C6, as amended. When every stored row has a \<^verbatim>\<open>user_input\<close> and an \<^verbatim>\<open>ai_response\<close> that are
  not NULL, so it has after any request to ask, history or delete, whatever its outcome;
  the texts themselves may be empty. An ask leaves the table as it was or with one row
  more at its end, a history leaves it as it was, and a delete leaves it as it was or
  without the rows of the requested id: ask alone adds a row, delete alone removes one,
  and no stored row is changed.
\<close>

theorem stored_rows_stay_not_null:
  assumes "list_all not_null (table w)"
  shows "list_all not_null (table (snd (ask_ai env prompt w))) \<and>
         list_all not_null (table (snd (get_conversation_history env w))) \<and>
         list_all not_null (table (snd (delete_conversation env cid w))) \<and>
         (table (snd (ask_ai env prompt w)) = table w \<or>
          (\<exists>r. table (snd (ask_ai env prompt w)) = table w @ [r])) \<and>
         table (snd (get_conversation_history env w)) = table w \<and>
         (table (snd (delete_conversation env cid w)) = table w \<or>
          table (snd (delete_conversation env cid w)) =
            filter (\<lambda>r. id_col r \<noteq> cid) (table w))"
proof -
  have ask: "table (snd (ask_ai env prompt w)) = table w \<or>
      (\<exists>t. table (snd (ask_ai env prompt w)) =
          table w @ [\<lparr>id_col = next_id w, user_input = Some (prompt_user_input prompt),
                      ai_response = Some t, created_at = now env\<rparr>])"
    by (rule table_after_ask)
  with assms have a1: "list_all not_null (table (snd (ask_ai env prompt w)))"
    by (auto simp add: not_null_def)
  from ask have a2: "table (snd (ask_ai env prompt w)) = table w \<or>
      (\<exists>r. table (snd (ask_ai env prompt w)) = table w @ [r])"
    by blast
  have h2: "table (snd (get_conversation_history env w)) = table w"
    by (rule table_after_history)
  with assms have h1: "list_all not_null (table (snd (get_conversation_history env w)))"
    by simp
  have d2: "table (snd (delete_conversation env cid w)) = table w \<or>
      table (snd (delete_conversation env cid w)) =
        filter (\<lambda>r. id_col r \<noteq> cid) (table w)"
    by (rule table_after_delete)
  with assms have d1: "list_all not_null (table (snd (delete_conversation env cid w)))"
    by (auto simp add: list_all_iff)
  show ?thesis by (intro conjI a1 h1 d1 a2 h2 d2)
qed

text \<open>
  The two rows of \<open>world2\<close> have texts that are not NULL; an ask whose completion has no
  content stores nothing, and one answered with \<^verbatim>\<open>Hello!\<close> stores a third row.
\<close>

theorem stored_rows_stay_not_null_witness:
  "list_all not_null (table world2) \<and>
   table (snd (ask_ai null_content_env \<lparr>prompt_user_input = ''hello''\<rparr> world2)) =
     [row1, row3] \<and>
   list_all not_null (table (snd (ask_ai quiet_env \<lparr>prompt_user_input = ''hello''\<rparr> world2))) \<and>
   length (table (snd (ask_ai quiet_env \<lparr>prompt_user_input = ''hello''\<rparr> world2))) = 3 \<and>
   list_all not_null (table (snd (delete_conversation quiet_env 1 world2)))"
proof -
  have n: "list_all not_null (table world2)"
    by (simp add: world2_def row1_def row3_def not_null_def)
  have s: "table (snd (ask_ai null_content_env \<lparr>prompt_user_input = ''hello''\<rparr> world2)) =
      [row1, row3]"
    by (simp add: ask_ai_cases null_content_env_def quiet_env_def world2_def)
  have l: "length (table (snd (ask_ai quiet_env \<lparr>prompt_user_input = ''hello''\<rparr> world2))) = 3"
    by (simp add: ask_ai_cases quiet_env_def world2_def)
  from stored_rows_stay_not_null
    [OF n, where env = quiet_env and prompt = "\<lparr>prompt_user_input = ''hello''\<rparr>" and cid = 1]
    n s l
  show ?thesis by simp
qed

text \<open>
  C6 as stated asks for texts that are not empty. The request \<^verbatim>\<open>{"user_input": ""}\<close> at
  startup, answered by the completion service with the empty string, returns (status
  200) and stores a row whose \<^verbatim>\<open>user_input\<close> and \<^verbatim>\<open>ai_response\<close> are both the empty string.
\<close>

theorem empty_texts_stored_counterexample:
  "fst (ask_ai empty_content_env \<lparr>prompt_user_input = ''''\<rparr> world0) =
     Inr [(''response'', JStr '''')] \<and>
   table (snd (ask_ai empty_content_env \<lparr>prompt_user_input = ''''\<rparr> world0)) =
     [\<lparr>id_col = 1, user_input = Some '''', ai_response = Some '''', created_at = 0\<rparr>]"
  by (simp add: ask_ai_cases empty_content_env_def quiet_env_def world0_def)

subsection \<open>Failures of ask and history\<close>

text \<open>
  C7. Whatever exception \<open>e\<close> the \<^verbatim>\<open>try\<close> of \<^verbatim>\<open>ask_ai\<close> or of \<^verbatim>\<open>get_conversation_history\<close>
  raises, the handler raises \<open>HTTPException 500\<close> with \<^verbatim>\<open>str(e)\<close> as its detail, and a
  handler that raises raises nothing else. Kind by kind: a completion call that raises
  with the message \<open>m\<close> (network, authentication) gives the detail \<open>m\<close>; a completion
  without choices gives the text of the IndexError; a storage failure with the message
  \<open>m\<close> at \<^verbatim>\<open>db.add\<close>, at \<^verbatim>\<open>db.commit\<close> or at the query of the history gives the detail
  \<open>m\<close>; a completion without content gives the text of the refused INSERT.
\<close>

theorem failures_signal_500_with_message:
  "(\<forall>e w'. ask_ai_try env prompt w = (Inl e, w') \<longrightarrow>
      ask_ai env prompt w = (Inl (HTTPException 500 (str_exn env e)), w')) \<and>
   (\<forall>e w'. get_conversation_history_try env w = (Inl e, w') \<longrightarrow>
      get_conversation_history env w = (Inl (HTTPException 500 (str_exn env e)), w')) \<and>
   (\<forall>e. fst (ask_ai env prompt w) = Inl e \<longrightarrow> (\<exists>d. e = HTTPException 500 d)) \<and>
   (\<forall>e. fst (get_conversation_history env w) = Inl e \<longrightarrow> (\<exists>d. e = HTTPException 500 d)) \<and>
   (create env ''gpt-3.5-turbo'' (snd (ask_request prompt)) = Inl m \<longrightarrow>
      fst (ask_ai env prompt w) = Inl (HTTPException 500 m)) \<and>
   (create env ''gpt-3.5-turbo'' (snd (ask_request prompt)) = Inr (ChatCompletion []) \<longrightarrow>
      fst (ask_ai env prompt w) = Inl (HTTPException 500 ''list index out of range'')) \<and>
   (create env ''gpt-3.5-turbo'' (snd (ask_request prompt)) = Inr (ChatCompletion (a # cs)) \<and>
    fault env OpAdd = Some m \<longrightarrow>
      fst (ask_ai env prompt w) = Inl (HTTPException 500 m)) \<and>
   (create env ''gpt-3.5-turbo'' (snd (ask_request prompt)) = Inr (ChatCompletion (a # cs)) \<and>
    fault env OpAdd = None \<and> fault env OpCommit = Some m \<longrightarrow>
      fst (ask_ai env prompt w) = Inl (HTTPException 500 m)) \<and>
   (create env ''gpt-3.5-turbo'' (snd (ask_request prompt)) = Inr (ChatCompletion (None # cs)) \<and>
    fault env OpAdd = None \<and> fault env OpCommit = None \<longrightarrow>
      fst (ask_ai env prompt w) = Inl (HTTPException 500 (integrity_error env))) \<and>
   (fault env OpQuery = Some m \<longrightarrow>
      fst (get_conversation_history env w) = Inl (HTTPException 500 m))"
proof -
  have t1: "\<forall>e w'. ask_ai_try env prompt w = (Inl e, w') \<longrightarrow>
      ask_ai env prompt w = (Inl (HTTPException 500 (str_exn env e)), w')"
    by (simp add: ask_ai_def try_except_def io_raise_def)
  have t2: "\<forall>e w'. get_conversation_history_try env w = (Inl e, w') \<longrightarrow>
      get_conversation_history env w = (Inl (HTTPException 500 (str_exn env e)), w')"
    by (simp add: get_conversation_history_def try_except_def io_raise_def)
  have o1: "\<forall>e. fst (ask_ai env prompt w) = Inl e \<longrightarrow> (\<exists>d. e = HTTPException 500 d)"
    by (auto simp add: ask_ai_cases split: sum.splits list.splits option.splits)
  have o2: "\<forall>e. fst (get_conversation_history env w) = Inl e \<longrightarrow>
      (\<exists>d. e = HTTPException 500 d)"
    by (auto simp add: get_conversation_history_cases split: option.splits)
  have k1: "create env ''gpt-3.5-turbo'' (snd (ask_request prompt)) = Inl m \<longrightarrow>
      fst (ask_ai env prompt w) = Inl (HTTPException 500 m)"
    by (simp add: ask_ai_cases ask_request_def)
  have k2: "create env ''gpt-3.5-turbo'' (snd (ask_request prompt)) = Inr (ChatCompletion []) \<longrightarrow>
      fst (ask_ai env prompt w) = Inl (HTTPException 500 ''list index out of range'')"
    by (simp add: ask_ai_cases ask_request_def)
  have k3: "create env ''gpt-3.5-turbo'' (snd (ask_request prompt)) =
        Inr (ChatCompletion (a # cs)) \<and> fault env OpAdd = Some m \<longrightarrow>
      fst (ask_ai env prompt w) = Inl (HTTPException 500 m)"
    by (simp add: ask_ai_cases ask_request_def)
  have k4: "create env ''gpt-3.5-turbo'' (snd (ask_request prompt)) =
        Inr (ChatCompletion (a # cs)) \<and> fault env OpAdd = None \<and>
      fault env OpCommit = Some m \<longrightarrow>
      fst (ask_ai env prompt w) = Inl (HTTPException 500 m)"
    by (simp add: ask_ai_cases ask_request_def)
  have k5: "create env ''gpt-3.5-turbo'' (snd (ask_request prompt)) =
        Inr (ChatCompletion (None # cs)) \<and> fault env OpAdd = None \<and>
      fault env OpCommit = None \<longrightarrow>
      fst (ask_ai env prompt w) = Inl (HTTPException 500 (integrity_error env))"
    by (simp add: ask_ai_cases ask_request_def)
  have k6: "fault env OpQuery = Some m \<longrightarrow>
      fst (get_conversation_history env w) = Inl (HTTPException 500 m)"
    by (simp add: get_conversation_history_cases)
  show ?thesis by (intro conjI t1 t2 o1 o2 k1 k2 k3 k4 k5 k6)
qed

text \<open>
  The completion service is unreachable: the ask raises 500 with the message of the
  connection error, and stores nothing. The database is down: the history raises 500
  with the message of the driver.
\<close>

theorem failures_signal_500_with_message_witness:
  "create offline_env ''gpt-3.5-turbo'' (snd (ask_request \<lparr>prompt_user_input = ''hi''\<rparr>)) =
     Inl ''Connection error.'' \<and>
   fault db_down_env OpQuery = Some ''connection refused'' \<and>
   ask_ai_try offline_env \<lparr>prompt_user_input = ''hi''\<rparr> world0 =
     (Inl (Error ''Connection error.''),
      world0\<lparr>calls := [ask_request \<lparr>prompt_user_input = ''hi''\<rparr>]\<rparr>) \<and>
   ask_ai offline_env \<lparr>prompt_user_input = ''hi''\<rparr> world0 =
     (Inl (HTTPException 500 ''Connection error.''),
      world0\<lparr>calls := [ask_request \<lparr>prompt_user_input = ''hi''\<rparr>]\<rparr>) \<and>
   fst (get_conversation_history db_down_env world2) =
     Inl (HTTPException 500 ''connection refused'')"
proof -
  let ?p = "\<lparr>prompt_user_input = ''hi''\<rparr>"
  have c: "create offline_env ''gpt-3.5-turbo'' (snd (ask_request ?p)) = Inl ''Connection error.''"
    by (simp add: offline_env_def quiet_env_def)
  have f: "fault db_down_env OpQuery = Some ''connection refused''"
    by (simp add: db_down_env_def quiet_env_def)
  have b: "ask_ai_try offline_env ?p world0 =
      (Inl (Error ''Connection error.''), world0\<lparr>calls := [ask_request ?p]\<rparr>)"
    by (simp add: ask_ai_try_def chat_completions_create_def io_defs offline_env_def
        quiet_env_def ask_request_def world0_def)
  note thm1 = failures_signal_500_with_message
    [where env = offline_env and prompt = ?p and w = world0 and m = "''Connection error.''"]
  note thm2 = failures_signal_500_with_message
    [where env = db_down_env and w = world2 and m = "''connection refused''"]
  from thm1 b have r: "ask_ai offline_env ?p world0 =
      (Inl (HTTPException 500 (str_exn offline_env (Error ''Connection error.''))),
       world0\<lparr>calls := [ask_request ?p]\<rparr>)"
    by blast
  from thm2 f have h: "fst (get_conversation_history db_down_env world2) =
      Inl (HTTPException 500 ''connection refused'')"
    by blast
  from c f b r h show ?thesis by (simp add: str_exn_def)
qed

end
